theory Spec2Isabelle
  imports Main "HOL-Library.AList" "HOL-Library.Char_ord" "HOL-Library.List_Lexorder"
begin

section \<open>create-bare-project: data model\<close>

text \<open>
  The development embeds \<^verbatim>\<open>tools/src/commands/CreateBareProject.ts\<close>.
  JavaScript strings are modelled as \<^typ>\<open>string\<close>; a character stands for a code unit
  below 256. A thrown exception is the \<open>Inl\<close> branch of a sum. Console output is left
  out.
\<close>

datatype error =
    MissingProjectName
  | CannotFindExpo
  | FailedToCreateTarball
  | TypeError
  | ENOENT string
  | ModuleNotFound string
  | External string

text \<open>
  \<^verbatim>\<open>Package\<close> and \<^verbatim>\<open>PackageDependency\<close> are imported from \<^verbatim>\<open>../Packages\<close>; the command
  reads \<^verbatim>\<open>packageName\<close>, \<^verbatim>\<open>path\<close>, \<^verbatim>\<open>getDependencies()\<close> and \<^verbatim>\<open>dep.name\<close> only.
\<close>

record PackageDependency =
  name :: string

record Package =
  packageName :: string
  path :: string
  getDependencies :: "PackageDependency list"

text \<open>
  A JSON object with string values is an association list in insertion order;
  \<^verbatim>\<open>package.json\<close> carries \<^verbatim>\<open>dependencies\<close> and \<^verbatim>\<open>resolutions\<close>, either of which may be
  missing. Every other key of the document lives in the record's extension.
\<close>

type_synonym json_object = "(string \<times> string) list"

record PackageJson =
  dependencies :: "json_object option"
  resolutions :: "json_object option"

record ActionOptions =
  name :: "string option"
  packages :: string
  workingDirectory :: string
  changedBase :: string
  changedRef :: string

section \<open>The world outside the process\<close>

text \<open>
  \<open>files\<close> holds the absolute paths of the regular files on disk, \<open>documents\<close> the
  parsed \<^verbatim>\<open>package.json\<close> files by path, \<open>cwd\<close> the current directory of the process.
  Every call that leaves the process is recorded in \<open>trace\<close>, in call order.
\<close>

record disk =
  files :: "string list"
  documents :: "(string \<times> PackageJson) list"
  cwd :: string

datatype event =
    CallGetPackageByName string
  | CallGetListOfPackages
  | CallGetChangedFiles string string
  | CallRunExpoCli string "string list" string
  | CallSpawn string "string list"
  | CallMerge string string
  | CallGlob string string
  | CallUnlink string
  | CallRequire string
  | CallWrite string
  | CallChdir string

record world =
  disk :: disk
  trace :: "event list"

type_synonym 'a io = "world \<Rightarrow> (error + 'a) \<times> world"

definition io_return :: "'a \<Rightarrow> 'a io" where
  "io_return x w = (Inr x, w)"

definition io_throw :: "error \<Rightarrow> 'a io" where
  "io_throw e w = (Inl e, w)"

definition io_bind :: "'a io \<Rightarrow> ('a \<Rightarrow> 'b io) \<Rightarrow> 'b io" where
  "io_bind m f w = (case m w of (Inl e, w') \<Rightarrow> (Inl e, w') | (Inr x, w') \<Rightarrow> f x w')"

text \<open>
  \<^verbatim>\<open>try { body } finally { fin }\<close>: the finaliser runs after the body whatever the body
  did; an exception of the finaliser replaces the body's outcome.
\<close>

definition try_finally :: "'a io \<Rightarrow> unit io \<Rightarrow> 'a io" where
  "try_finally body fin w =
     (case body w of (r, w1) \<Rightarrow>
        (case fin w1 of (Inl e, w2) \<Rightarrow> (Inl e, w2) | (Inr u, w2) \<Rightarrow> (r, w2)))"

text \<open>
  An external process may change the disk and may fail; a query reads the disk and may
  fail. Neither sees the trace: the call is appended to it.
\<close>

definition external :: "event \<Rightarrow> (disk \<Rightarrow> error option \<times> disk) \<Rightarrow> unit io" where
  "external ev f w =
     (case f (disk w) of (r, d) \<Rightarrow>
        (case r of Some e \<Rightarrow> Inl e | None \<Rightarrow> Inr (), \<lparr>disk = d, trace = trace w @ [ev]\<rparr>))"

definition query :: "event \<Rightarrow> (disk \<Rightarrow> error + 'a) \<Rightarrow> 'a io" where
  "query ev f w = (f (disk w), w\<lparr>trace := trace w @ [ev]\<rparr>)"

text \<open>
  The collaborators the command imports: Node's \<^verbatim>\<open>path\<close>, \<^verbatim>\<open>Directories\<close>, \<^verbatim>\<open>Packages\<close>,
  \<^verbatim>\<open>Git\<close>, \<^verbatim>\<open>ExpoCLI\<close>, \<^verbatim>\<open>@expo/spawn-async\<close> and \<^verbatim>\<open>@expo/json-file\<close>. Their code is not
  part of the command, so they are parameters.
\<close>

record env =
  getExpoRepositoryRootDir :: string
  path_join :: "string list \<Rightarrow> string"
  path_relative :: "string \<Rightarrow> string \<Rightarrow> string"
  path_isAbsolute :: "string \<Rightarrow> bool"
  getPackageByName :: "string \<Rightarrow> disk \<Rightarrow> Package option"
  getListOfPackagesAsync :: "disk \<Rightarrow> error + Package list"
  getChangedFilesAsync :: "string \<Rightarrow> string \<Rightarrow> disk \<Rightarrow> error + string list"
  runExpoCliAsync :: "string \<Rightarrow> string list \<Rightarrow> string \<Rightarrow> disk \<Rightarrow> error option \<times> disk"
  spawnAsync :: "string \<Rightarrow> string list \<Rightarrow> string option \<Rightarrow> disk \<Rightarrow> error option \<times> disk"
  mergeAsync :: "string \<Rightarrow> string \<Rightarrow> disk \<Rightarrow> error option \<times> disk"

section \<open>Strings\<close>

text \<open>\<^verbatim>\<open>String.prototype.split\<close> with a one-character separator.\<close>

fun split :: "char \<Rightarrow> string \<Rightarrow> string list" where
  "split c [] = [[]]"
| "split c (x # xs) =
     (if x = c then [] # split c xs
      else (case split c xs of [] \<Rightarrow> [[x]] | r # rs \<Rightarrow> (x # r) # rs))"

text \<open>
  \<^verbatim>\<open>String.prototype.trim\<close> strips white space and line terminators from both ends;
  below 256 these are TAB, LF, VT, FF, CR, SP and NBSP.
\<close>

definition isWhiteSpace :: "char \<Rightarrow> bool" where
  "isWhiteSpace c \<longleftrightarrow>
     c \<in> set [CHR 0x09, CHR 0x0A, CHR 0x0B, CHR 0x0C, CHR 0x0D, CHR 0x20, CHR 0xA0]"

definition trim :: "string \<Rightarrow> string" where
  "trim s = rev (dropWhile isWhiteSpace (rev (dropWhile isWhiteSpace s)))"

text \<open>\<^verbatim>\<open>String.prototype.startsWith\<close>.\<close>

definition startsWith :: "string \<Rightarrow> string \<Rightarrow> bool" where
  "startsWith s p \<longleftrightarrow> take (length p) s = p"

section \<open>Package selection\<close>

definition EXCLUDED_PACKAGES :: "string list" where
  "EXCLUDED_PACKAGES =
     [''expo-module-template'', ''workspace-template'', ''first-package'',
      ''second-package'', ''unimodules-test-core'']"

definition getExpoTransitivePackages :: "env \<Rightarrow> string list io" where
  "getExpoTransitivePackages E =
     io_bind (query (CallGetPackageByName ''expo'') (\<lambda>w. Inr (getPackageByName E ''expo'' w)))
       (\<lambda>expoPackage. case expoPackage of
            None \<Rightarrow> io_throw CannotFindExpo
          | Some p \<Rightarrow> io_return (map PackageDependency.name (getDependencies p)))"

text \<open>
  The test of the inner loop of \<^verbatim>\<open>getChangedPackagesAsync\<close>: the changed file lies
  inside the package's directory.
\<close>

definition isInsidePackage :: "env \<Rightarrow> Package \<Rightarrow> string \<Rightarrow> bool" where
  "isInsidePackage E pkg file =
     (let pkgRelativePath = path_relative E (getExpoRepositoryRootDir E) (path pkg);
          relativePath = path_relative E pkgRelativePath file
      in relativePath \<noteq> [] \<and> \<not> startsWith relativePath ''..''
         \<and> \<not> path_isAbsolute E relativePath)"

fun changedPackagesOfFile :: "env \<Rightarrow> string \<Rightarrow> Package list \<Rightarrow> string list \<Rightarrow> string list" where
  "changedPackagesOfFile E file [] result = result"
| "changedPackagesOfFile E file (pkg # pkgs) result =
     changedPackagesOfFile E file pkgs
       (if isInsidePackage E pkg file then result @ [packageName pkg] else result)"

fun changedPackagesLoop :: "env \<Rightarrow> string list \<Rightarrow> Package list \<Rightarrow> string list \<Rightarrow> string list" where
  "changedPackagesLoop E [] allPackages result = result"
| "changedPackagesLoop E (file # changedFiles) allPackages result =
     changedPackagesLoop E changedFiles allPackages
       (changedPackagesOfFile E file allPackages result)"

definition getChangedPackagesAsync :: "env \<Rightarrow> string \<Rightarrow> string \<Rightarrow> string list io" where
  "getChangedPackagesAsync E base ref =
     io_bind (query CallGetListOfPackages (getListOfPackagesAsync E))
       (\<lambda>allPackages.
          io_bind (query (CallGetChangedFiles base ref) (getChangedFilesAsync E base ref))
            (\<lambda>changedFiles. io_return (changedPackagesLoop E changedFiles allPackages [])))"

text \<open>Lines 195 to 207: the names the chosen mode adds.\<close>

definition extraPackagesOf :: "env \<Rightarrow> ActionOptions \<Rightarrow> string list io" where
  "extraPackagesOf E options =
     (if packages options = ''default'' then io_return []
      else if packages options = ''all'' then
        io_bind (query CallGetListOfPackages (getListOfPackagesAsync E))
          (\<lambda>allPackages. io_return
             (filter (\<lambda>packageName. packageName \<noteq> [] \<and> packageName \<notin> set EXCLUDED_PACKAGES)
                (map packageName allPackages)))
      else if packages options = ''changed'' then
        getChangedPackagesAsync E (changedBase options) (changedRef options)
      else io_return (map trim (split (CHR '','') (packages options))))"

definition getExtraPackagesAsync :: "env \<Rightarrow> ActionOptions \<Rightarrow> string list io" where
  "getExtraPackagesAsync E options =
     io_bind (getExpoTransitivePackages E)
       (\<lambda>defaultPackages.
          io_bind (extraPackagesOf E options)
            (\<lambda>extraPackages. io_return (defaultPackages @ extraPackages)))"

section \<open>Scaffolding\<close>

definition createManagedProjectAsync :: "env \<Rightarrow> string \<Rightarrow> string \<Rightarrow> string io" where
  "createManagedProjectAsync E projectName workDir =
     (let managedTemplateDir =
            path_join E [getExpoRepositoryRootDir E, ''templates'', ''expo-template-blank''];
          args = [projectName, ''-t'', managedTemplateDir, ''--no-install'']
      in io_bind (external (CallRunExpoCli ''init'' args workDir)
                    (runExpoCliAsync E ''init'' args workDir))
           (\<lambda>u. io_return (path_join E [workDir, projectName])))"

subsection \<open>The template tarball\<close>

text \<open>
  \<^verbatim>\<open>glob('expo-template-bare-minimum-*.tgz', { cwd: workDir, absolute: true })\<close>: the files
  directly in \<open>workDir\<close> whose name starts with the prefix and ends with the suffix of the
  pattern, sorted by name as \<^verbatim>\<open>glob\<close> sorts its matches; names are compared code unit by
  code unit. \<open>workDir\<close> is an absolute path without a trailing slash.
\<close>

definition endsWith :: "string \<Rightarrow> string \<Rightarrow> bool" where
  "endsWith s p \<longleftrightarrow> startsWith (rev s) (rev p)"

definition matchesTarballPattern :: "string \<Rightarrow> bool" where
  "matchesTarballPattern n \<longleftrightarrow>
     startsWith n ''expo-template-bare-minimum-'' \<and> endsWith n ''.tgz''
     \<and> length ''expo-template-bare-minimum-'' + length ''.tgz'' \<le> length n
     \<and> CHR ''/'' \<notin> set n"

definition isTarballIn :: "string \<Rightarrow> string \<Rightarrow> bool" where
  "isTarballIn workDir f \<longleftrightarrow>
     startsWith f (workDir @ ''/'') \<and> matchesTarballPattern (drop (length workDir + 1) f)"

definition glob_tarball :: "string \<Rightarrow> string list io" where
  "glob_tarball workDir =
     query (CallGlob ''expo-template-bare-minimum-*.tgz'' workDir)
       (\<lambda>d. Inr (sort (filter (isTarballIn workDir) (files d))))"

text \<open>\<^verbatim>\<open>fs.promises.unlink\<close>: removes the file, or fails when there is none.\<close>

definition unlink :: "string \<Rightarrow> unit io" where
  "unlink p w =
     (if p \<in> set (files (disk w))
      then (Inr (), \<lparr>disk = (disk w)\<lparr>files := removeAll p (files (disk w))\<rparr>,
                     trace = trace w @ [CallUnlink p]\<rparr>)
      else (Inl (ENOENT p), w\<lparr>trace := trace w @ [CallUnlink p]\<rparr>))"

text \<open>Lines 105 to 128: merge the identifiers into \<^verbatim>\<open>app.json\<close>, pack the template, find the tarball.\<close>

definition packBareTemplate :: "env \<Rightarrow> string \<Rightarrow> string \<Rightarrow> string \<Rightarrow> string io" where
  "packBareTemplate E projectName projectDir workDir =
     (let appId = ''dev.expo.'' @ projectName;
          appJson = path_join E [projectDir, ''app.json''];
          bareTemplateDir =
            path_join E [getExpoRepositoryRootDir E, ''templates'', ''expo-template-bare-minimum''];
          packArgs = [''pack'', ''--pack-destination'', workDir]
      in io_bind (external (CallMerge appJson appId) (mergeAsync E appJson appId))
           (\<lambda>u. io_bind (external (CallSpawn ''npm'' packArgs)
                           (spawnAsync E ''npm'' packArgs (Some bareTemplateDir)))
              (\<lambda>u. io_bind (glob_tarball workDir)
                 (\<lambda>found. case found of
                      [] \<Rightarrow> io_throw FailedToCreateTarball
                    | bareTemplateTarball # rest \<Rightarrow>
                        if bareTemplateTarball = [] then io_throw FailedToCreateTarball
                        else io_return bareTemplateTarball))))"

text \<open>Lines 130 to 136: the prebuild step, and the tarball's removal in \<^verbatim>\<open>finally\<close>.\<close>

definition prebuildWithTarball :: "env \<Rightarrow> string \<Rightarrow> string \<Rightarrow> unit io" where
  "prebuildWithTarball E projectDir bareTemplateTarball =
     (let args = [''--template'', bareTemplateTarball, ''--no-install'']
      in try_finally
           (external (CallRunExpoCli ''prebuild'' args projectDir)
              (runExpoCliAsync E ''prebuild'' args projectDir))
           (unlink bareTemplateTarball))"

subsection \<open>Rewriting package.json\<close>

text \<open>
  \<^verbatim>\<open>allPackageMap\<close> is an object literal filled by assignment, so a key it does not own
  is looked up in \<^verbatim>\<open>Object.prototype\<close>, whose members are all truthy. Assigning to
  \<^verbatim>\<open>__proto__\<close> creates no own property; it replaces the prototype by the package, whose
  members belong to the absent class \<^verbatim>\<open>Package\<close>. The model keeps the own properties and
  does not follow the replaced prototype, so it is exact for a catalog without a package
  called \<^verbatim>\<open>__proto__\<close> only; every theorem about the rewrite assumes such a catalog.
\<close>

definition objectPrototypeKeys :: "string list" where
  "objectPrototypeKeys =
     [''constructor'', ''__defineGetter__'', ''__defineSetter__'', ''hasOwnProperty'',
      ''__lookupGetter__'', ''__lookupSetter__'', ''isPrototypeOf'',
      ''propertyIsEnumerable'', ''toString'', ''valueOf'', ''__proto__'',
      ''toLocaleString'']"

datatype property = Undefined | OwnPackage Package | Inherited string

definition allPackageMapOf :: "Package list \<Rightarrow> (string \<times> Package) list" where
  "allPackageMapOf allPackages =
     fold (\<lambda>currValue accu.
             if packageName currValue = ''__proto__'' then accu
             else AList.update (packageName currValue) currValue accu)
       allPackages []"

definition getProperty :: "(string \<times> Package) list \<Rightarrow> string \<Rightarrow> property" where
  "getProperty obj key =
     (case map_of obj key of
        Some p \<Rightarrow> OwnPackage p
      | None \<Rightarrow> if key \<in> set objectPrototypeKeys then Inherited key else Undefined)"

text \<open>\<^verbatim>\<open>new Set(xs)\<close> keeps the first occurrence of each element, in order.\<close>

definition newSet :: "'a list \<Rightarrow> 'a list" where
  "newSet xs = fold (\<lambda>x s. if x \<in> set s then s else s @ [x]) xs []"

text \<open>
  The loop over \<^verbatim>\<open>installPackages\<close>. A member that is not a package has neither
  \<^verbatim>\<open>packageName\<close> nor \<^verbatim>\<open>path\<close>, and \<^verbatim>\<open>path.relative\<close> throws on the undefined path.
\<close>

fun installLoop ::
  "env \<Rightarrow> string \<Rightarrow> property list \<Rightarrow> json_object \<Rightarrow> json_object \<Rightarrow>
   error + json_object \<times> json_object" where
  "installLoop E projectDir [] deps res = Inr (deps, res)"
| "installLoop E projectDir (OwnPackage pkg # rest) deps res =
     (let relativePath = path_relative E projectDir (path pkg)
      in installLoop E projectDir rest
           (AList.update (packageName pkg) relativePath deps)
           (AList.update (packageName pkg) relativePath res))"
| "installLoop E projectDir (p # rest) deps res = Inl TypeError"

text \<open>Lines 142 to 162, from the catalog and the parsed document to the document written back.\<close>

definition rewritePackageJson ::
  "env \<Rightarrow> string \<Rightarrow> Package list \<Rightarrow> string list \<Rightarrow> 'a PackageJson_scheme \<Rightarrow>
   error + 'a PackageJson_scheme" where
  "rewritePackageJson E projectDir allPackages extraInstallPackages projectPackageJson =
     (let allPackageMap = allPackageMapOf allPackages
      in case dependencies projectPackageJson of
           None \<Rightarrow> Inl TypeError
         | Some deps \<Rightarrow>
             (let installPackages =
                    newSet (map (getProperty allPackageMap)
                      (filter (\<lambda>name. getProperty allPackageMap name \<noteq> Undefined)
                         (map fst deps @ extraInstallPackages)));
                  res = (case resolutions projectPackageJson of None \<Rightarrow> [] | Some r \<Rightarrow> r)
              in case installLoop E projectDir installPackages deps res of
                   Inl e \<Rightarrow> Inl e
                 | Inr (deps', res') \<Rightarrow>
                     Inr (projectPackageJson\<lparr>dependencies := Some deps',
                                             resolutions := Some res'\<rparr>)))"

definition require :: "string \<Rightarrow> PackageJson io" where
  "require p =
     query (CallRequire p)
       (\<lambda>d. case map_of (documents d) p of None \<Rightarrow> Inl (ModuleNotFound p) | Some j \<Rightarrow> Inr j)"

definition writeAsync :: "string \<Rightarrow> PackageJson \<Rightarrow> unit io" where
  "writeAsync p j w =
     (Inr (), \<lparr>disk = (disk w)\<lparr>documents := AList.update p j (documents (disk w))\<rparr>,
               trace = trace w @ [CallWrite p]\<rparr>)"

definition updatePackageJson :: "env \<Rightarrow> string \<Rightarrow> string \<Rightarrow> string \<Rightarrow> string list \<Rightarrow> unit io" where
  "updatePackageJson E projectName projectDir workDir extraInstallPackages =
     (let projectPackageJsonPath = path_join E [workDir, projectName, ''package.json'']
      in io_bind (query CallGetListOfPackages (getListOfPackagesAsync E))
           (\<lambda>allPackages. io_bind (require projectPackageJsonPath)
              (\<lambda>projectPackageJson.
                 case rewritePackageJson E projectDir allPackages extraInstallPackages
                        projectPackageJson of
                   Inl e \<Rightarrow> io_throw e
                 | Inr j \<Rightarrow> writeAsync projectPackageJsonPath j)))"

definition prebuildProjectAsync :: "env \<Rightarrow> string \<Rightarrow> string \<Rightarrow> string \<Rightarrow> string list \<Rightarrow> unit io" where
  "prebuildProjectAsync E projectName projectDir workDir extraInstallPackages =
     io_bind (packBareTemplate E projectName projectDir workDir)
       (\<lambda>bareTemplateTarball.
          io_bind (prebuildWithTarball E projectDir bareTemplateTarball)
            (\<lambda>u. updatePackageJson E projectName projectDir workDir extraInstallPackages))"

subsection \<open>The command\<close>

definition chdir :: "string \<Rightarrow> unit io" where
  "chdir p w = (Inr (), \<lparr>disk = (disk w)\<lparr>cwd := p\<rparr>, trace = trace w @ [CallChdir p]\<rparr>)"

definition action :: "env \<Rightarrow> ActionOptions \<Rightarrow> unit io" where
  "action E options =
     (case ActionOptions.name options of
        None \<Rightarrow> io_throw MissingProjectName
      | Some projectName \<Rightarrow>
          if projectName = [] then io_throw MissingProjectName
          else
            io_bind (getExtraPackagesAsync E options)
              (\<lambda>extraPackages.
                 io_bind (createManagedProjectAsync E projectName (workingDirectory options))
                   (\<lambda>projectDir.
                      io_bind (prebuildProjectAsync E projectName projectDir
                                 (workingDirectory options) extraPackages)
                        (\<lambda>u. io_bind (chdir projectDir)
                           (\<lambda>u. external (CallSpawn ''yarn'' [])
                                  (spawnAsync E ''yarn'' [] None))))))"

section \<open>A sample workspace\<close>

text \<open>
  An instance of the collaborators, for the examples below: POSIX paths resolved against
  the repository root, a catalog of four packages, a version-control query that reports
  three changed files, and tools that succeed. \<^verbatim>\<open>expo init\<close> writes the project's
  \<^verbatim>\<open>package.json\<close>; \<^verbatim>\<open>npm pack\<close> drops the tarball of the current template.
\<close>

definition posix_isAbsolute :: "string \<Rightarrow> bool" where
  "posix_isAbsolute p \<longleftrightarrow> startsWith p ''/''"

definition posix_join :: "string list \<Rightarrow> string" where
  "posix_join parts = foldr (\<lambda>p acc. if acc = [] then p else p @ ''/'' @ acc) parts []"

fun posix_normalize :: "string list \<Rightarrow> string list \<Rightarrow> string list" where
  "posix_normalize acc [] = rev acc"
| "posix_normalize acc (s # ss) =
     (if s = ''..'' then posix_normalize (tl acc) ss else posix_normalize (s # acc) ss)"

definition posix_resolve :: "string \<Rightarrow> string \<Rightarrow> string list" where
  "posix_resolve base p =
     posix_normalize []
       (filter (\<lambda>s. s \<noteq> [] \<and> s \<noteq> ''.'')
          (split (CHR ''/'') (if posix_isAbsolute p then p else base @ ''/'' @ p)))"

text \<open>
  Ownership as the spec words it: a file resolves underneath a package's path when the
  resolved path of the package is a proper prefix, segment by segment, of the resolved
  path of the file.
\<close>

definition resolvesUnderneath :: "string \<Rightarrow> string \<Rightarrow> string \<Rightarrow> bool" where
  "resolvesUnderneath base packagePath file \<longleftrightarrow>
     (let dir = posix_resolve base packagePath; target = posix_resolve base file
      in length dir < length target \<and> take (length dir) target = dir)"

fun dropCommon :: "string list \<Rightarrow> string list \<Rightarrow> string list \<times> string list" where
  "dropCommon (x # xs) (y # ys) = (if x = y then dropCommon xs ys else (x # xs, y # ys))"
| "dropCommon xs ys = (xs, ys)"

definition posix_relative :: "string \<Rightarrow> string \<Rightarrow> string \<Rightarrow> string" where
  "posix_relative base from to =
     (case dropCommon (posix_resolve base from) (posix_resolve base to) of
        (up, down) \<Rightarrow> posix_join (replicate (length up) ''..'' @ down))"

definition sample_packages :: "Package list" where
  "sample_packages =
     [\<lparr>packageName = ''expo'', path = ''/repo/packages/expo'',
       getDependencies = [\<lparr>PackageDependency.name = ''expo-asset''\<rparr>,
                          \<lparr>PackageDependency.name = ''expo-file-system''\<rparr>]\<rparr>,
      \<lparr>packageName = ''expo-asset'', path = ''/repo/packages/expo-asset'',
       getDependencies = []\<rparr>,
      \<lparr>packageName = ''expo-camera'', path = ''/repo/packages/expo-camera'',
       getDependencies = []\<rparr>,
      \<lparr>packageName = ''expo-module-template'', path = ''/repo/packages/expo-module-template'',
       getDependencies = []\<rparr>]"

definition sample_manifest :: PackageJson where
  "sample_manifest =
     \<lparr>dependencies = Some [(''expo'', ''~46.0.0''), (''react'', ''18.0.0'')],
      resolutions = None\<rparr>"

definition sample_env :: env where
  "sample_env =
     \<lparr>getExpoRepositoryRootDir = ''/repo'',
      path_join = posix_join,
      path_relative = posix_relative ''/repo'',
      path_isAbsolute = posix_isAbsolute,
      getPackageByName = (\<lambda>n d. find (\<lambda>p. packageName p = n) sample_packages),
      getListOfPackagesAsync = (\<lambda>d. Inr sample_packages),
      getChangedFilesAsync = (\<lambda>base ref d.
        Inr [''packages/expo-camera/ios/Foo.m'', ''packages/expo-camera/package.json'',
             ''README.md'']),
      runExpoCliAsync = (\<lambda>command args dir d.
        if command = ''init''
        then (None, d\<lparr>documents :=
                AList.update (posix_join [dir, hd args, ''package.json'']) sample_manifest
                  (documents d)\<rparr>)
        else (None, d)),
      spawnAsync = (\<lambda>command args dir d.
        if command = ''npm''
        then (None, d\<lparr>files :=
                files d @ [last args @ ''/expo-template-bare-minimum-46.0.0.tgz'']\<rparr>)
        else (None, d)),
      mergeAsync = (\<lambda>file appId d. (None, d))\<rparr>"

text \<open>
  The same workspace with one changed file, in the directory of \<^verbatim>\<open>expo-camera\<close>, whose name
  starts with two dots.
\<close>

definition dotdot_env :: env where
  "dotdot_env =
     sample_env\<lparr>getChangedFilesAsync := (\<lambda>base ref d. Inr [''packages/expo-camera/..foo''])\<rparr>"

text \<open>The same workspace with a prebuild step that fails.\<close>

definition failing_env :: env where
  "failing_env =
     sample_env\<lparr>runExpoCliAsync := (\<lambda>command args dir d.
        if command = ''prebuild'' then (Some (External ''prebuild failed''), d)
        else runExpoCliAsync sample_env command args dir d)\<rparr>"

text \<open>An entry package that declares one of the excluded packages.\<close>

definition template_env :: env where
  "template_env =
     sample_env\<lparr>getPackageByName := (\<lambda>n d.
        if n = ''expo''
        then Some \<lparr>packageName = ''expo'', path = ''/repo/packages/expo'',
                   getDependencies = [\<lparr>PackageDependency.name = ''expo-module-template''\<rparr>]\<rparr>
        else None)\<rparr>"

definition sample_options :: ActionOptions where
  "sample_options =
     \<lparr>name = Some ''demo'', packages = ''default'', workingDirectory = ''/work'',
      changedBase = ''master'', changedRef = ''HEAD''\<rparr>"

text \<open>
  A working directory with the scaffolded project \<^verbatim>\<open>demo\<close>, which still holds the tarball
  of an earlier template version.
\<close>

definition sample_world :: world where
  "sample_world =
     \<lparr>disk = \<lparr>files = [''/work/expo-template-bare-minimum-45.0.0.tgz''],
              documents = [(''/work/demo/package.json'', sample_manifest)],
              cwd = ''/repo''\<rparr>,
      trace = []\<rparr>"

text \<open>The third package of the catalog.\<close>

definition expo_camera :: Package where
  "expo_camera = \<lparr>packageName = ''expo-camera'', path = ''/repo/packages/expo-camera'',
       getDependencies = []\<rparr>"

section \<open>Changed packages\<close>

lemma changedPackagesOfFile_eq:
  "changedPackagesOfFile E file pkgs result =
     result @ map packageName (filter (\<lambda>pkg. isInsidePackage E pkg file) pkgs)"
  by (induction pkgs arbitrary: result) simp_all

lemma changedPackagesLoop_eq:
  "changedPackagesLoop E changedFiles allPackages result =
     result @ concat (map (\<lambda>file. map packageName
                  (filter (\<lambda>pkg. isInsidePackage E pkg file) allPackages)) changedFiles)"
  by (induction changedFiles arbitrary: result) (simp_all add: changedPackagesOfFile_eq)

lemma changedPackagesLoop_mem:
  "n \<in> set (changedPackagesLoop E changedFiles allPackages []) \<longleftrightarrow>
     (\<exists>file \<in> set changedFiles. \<exists>pkg \<in> set allPackages.
        packageName pkg = n \<and> isInsidePackage E pkg file)"
  unfolding changedPackagesLoop_eq by auto

lemma getChangedPackagesAsync_result:
  assumes "getListOfPackagesAsync E (disk w) = Inr allPackages"
      and "getChangedFilesAsync E base ref (disk w) = Inr changedFiles"
  shows "getChangedPackagesAsync E base ref w =
           (Inr (changedPackagesLoop E changedFiles allPackages []),
            w\<lparr>trace := trace w @ [CallGetListOfPackages, CallGetChangedFiles base ref]\<rparr>)"
  using assms by (simp add: getChangedPackagesAsync_def io_bind_def query_def io_return_def)





text \<open>
  What the loop computes. When the catalog and the changed files are obtained, the change
  set holds a name exactly when some catalog package of that name passes the test of the
  loop for some changed file; with package names unique in the catalog, it holds the name
  of a catalog package exactly when that package passes the test for some changed file.
\<close>

lemma changed_packages_membership:
  assumes "getListOfPackagesAsync E (disk w) = Inr allPackages"
      and "getChangedFilesAsync E base ref (disk w) = Inr changedFiles"
  shows "\<exists>result w'. getChangedPackagesAsync E base ref w = (Inr result, w')
           \<and> (\<forall>n. n \<in> set result \<longleftrightarrow>
                  (\<exists>pkg \<in> set allPackages. packageName pkg = n
                     \<and> (\<exists>file \<in> set changedFiles. isInsidePackage E pkg file)))
           \<and> (distinct (map packageName allPackages) \<longrightarrow>
                (\<forall>p \<in> set allPackages. packageName p \<in> set result
                   \<longleftrightarrow> (\<exists>file \<in> set changedFiles. isInsidePackage E p file)))"
proof -
  let ?result = "changedPackagesLoop E changedFiles allPackages []"
  have general: "n \<in> set ?result \<longleftrightarrow>
                  (\<exists>pkg \<in> set allPackages. packageName pkg = n
                     \<and> (\<exists>file \<in> set changedFiles. isInsidePackage E pkg file))" for n
    unfolding changedPackagesLoop_mem by blast
  have unique: "packageName p \<in> set ?result
                   \<longleftrightarrow> (\<exists>file \<in> set changedFiles. isInsidePackage E p file)"
    if d: "distinct (map packageName allPackages)" and p: "p \<in> set allPackages" for p
  proof -
    have inj: "\<And>q. q \<in> set allPackages \<Longrightarrow> packageName q = packageName p \<Longrightarrow> q = p"
      using d p by (meson distinct_map inj_onD)
    show ?thesis unfolding general using p inj by blast
  qed
  from general unique show ?thesis
    using getChangedPackagesAsync_result [OF assms] by simp
qed

lemma sample_packages_distinct: "distinct (map packageName sample_packages)"
  by (simp add: sample_packages_def)

lemma sample_changed_files:
  "getChangedFilesAsync sample_env ''master'' ''HEAD'' d =
     Inr [''packages/expo-camera/ios/Foo.m'', ''packages/expo-camera/package.json'',
          ''README.md'']"
  by (simp add: sample_env_def)

lemma sample_list: "getListOfPackagesAsync sample_env d = Inr sample_packages"
  by (simp add: sample_env_def)

lemma expo_camera_in_catalog: "expo_camera \<in> set sample_packages"
  by (simp add: sample_packages_def expo_camera_def)

lemma expo_camera_owns: "isInsidePackage sample_env expo_camera ''packages/expo-camera/ios/Foo.m''"
  by code_simp

lemma changed_packages_membership_sample:
  "''expo-camera'' \<in> set (case fst (getChangedPackagesAsync sample_env ''master'' ''HEAD''
                                      sample_world) of Inl e \<Rightarrow> [] | Inr result \<Rightarrow> result)"
proof -
  from changed_packages_membership [OF sample_list sample_changed_files, of sample_world]
  obtain result w' where
    r: "getChangedPackagesAsync sample_env ''master'' ''HEAD'' sample_world = (Inr result, w')"
    and m: "distinct (map packageName sample_packages) \<longrightarrow>
       (\<forall>p \<in> set sample_packages. packageName p \<in> set result \<longleftrightarrow>
          (\<exists>file \<in> set [''packages/expo-camera/ios/Foo.m'', ''packages/expo-camera/package.json'',
             ''README.md'']. isInsidePackage sample_env p file))"
    by blast
  from m sample_packages_distinct expo_camera_in_catalog
  have "packageName expo_camera \<in> set result \<longleftrightarrow>
          (\<exists>file \<in> set [''packages/expo-camera/ios/Foo.m'', ''packages/expo-camera/package.json'',
             ''README.md'']. isInsidePackage sample_env expo_camera file)"
    by blast
  with expo_camera_owns have "packageName expo_camera \<in> set result" by simp
  then show ?thesis using r by (simp add: expo_camera_def)
qed

text \<open>
  C1. The change set should hold a package's name exactly when the package owns a changed
  file. The code misses an owned file whose path relative to the package starts with two
  dots without being a step to the parent directory: \<^verbatim>\<open>packages/expo-camera/..foo\<close>
  resolves underneath the path of \<^verbatim>\<open>expo-camera\<close>, its relative path is \<^verbatim>\<open>..foo\<close>, the
  test \<^verbatim>\<open>startsWith('..')\<close> takes it for a file outside the package, and the change set is
  empty.
\<close>

theorem owned_dotdot_file_missed:
  "resolvesUnderneath ''/repo'' (path expo_camera) ''packages/expo-camera/..foo''
   \<and> path_relative dotdot_env
         (path_relative dotdot_env (getExpoRepositoryRootDir dotdot_env) (path expo_camera))
         ''packages/expo-camera/..foo'' = ''..foo''
   \<and> \<not> isInsidePackage dotdot_env expo_camera ''packages/expo-camera/..foo''
   \<and> fst (getChangedPackagesAsync dotdot_env ''master'' ''HEAD'' sample_world) = Inr []"
  by code_simp





section \<open>Package selection\<close>

lemma getExpoTransitivePackages_found:
  assumes "getPackageByName E ''expo'' (disk w) = Some expoPackage"
  shows "getExpoTransitivePackages E w =
           (Inr (map PackageDependency.name (getDependencies expoPackage)),
            w\<lparr>trace := trace w @ [CallGetPackageByName ''expo'']\<rparr>)"
  using assms
  by (simp add: getExpoTransitivePackages_def io_bind_def query_def io_return_def)

lemma getChangedPackagesAsync_disk:
  assumes "disk w1 = disk w"
  shows "fst (getChangedPackagesAsync E base ref w1) = fst (getChangedPackagesAsync E base ref w)"
  using assms
  by (simp add: getChangedPackagesAsync_def io_bind_def query_def io_return_def
           split: sum.splits)

lemma extraPackagesOf_disk:
  assumes "disk w1 = disk w"
  shows "fst (extraPackagesOf E options w1) = fst (extraPackagesOf E options w)"
proof -
  have all: "fst (io_bind (query CallGetListOfPackages (getListOfPackagesAsync E))
                     (\<lambda>allPackages. io_return (g allPackages)) w1)
        = fst (io_bind (query CallGetListOfPackages (getListOfPackagesAsync E))
                     (\<lambda>allPackages. io_return (g allPackages)) w)"
    for g :: "Package list \<Rightarrow> string list"
    using assms by (simp add: io_bind_def query_def io_return_def split: sum.splits)
  show ?thesis
    unfolding extraPackagesOf_def
    by (simp add: getChangedPackagesAsync_disk [OF assms] all) (simp add: io_return_def)
qed

lemma getExtraPackagesAsync_found:
  assumes "getPackageByName E ''expo'' (disk w) = Some expoPackage"
  shows "fst (getExtraPackagesAsync E options w) =
           (case fst (extraPackagesOf E options w) of
              Inl e \<Rightarrow> Inl e
            | Inr extraPackages \<Rightarrow>
                Inr (map PackageDependency.name (getDependencies expoPackage) @ extraPackages))"
proof -
  let ?w1 = "w\<lparr>trace := trace w @ [CallGetPackageByName ''expo'']\<rparr>"
  have "fst (extraPackagesOf E options ?w1) = fst (extraPackagesOf E options w)"
    by (rule extraPackagesOf_disk) simp
  then show ?thesis
    unfolding getExtraPackagesAsync_def
    by (cases "extraPackagesOf E options ?w1")
       (auto simp: io_bind_def getExpoTransitivePackages_found [OF assms] io_return_def
             split: sum.splits)
qed

text \<open>
  C4. When the entry package is found, the selector returns, in every mode, the entry
  package's dependency names in their declared order followed by the names the mode adds
  in the order the mode produced them; it fails only where the mode's own computation
  fails. No mode replaces or drops the default names.
\<close>

theorem default_floor_in_every_mode:
  assumes "getPackageByName E ''expo'' (disk w) = Some expoPackage"
  shows "(\<forall>e. fst (extraPackagesOf E options w) = Inl e
              \<longrightarrow> fst (getExtraPackagesAsync E options w) = Inl e)
       \<and> (\<forall>extraPackages. fst (extraPackagesOf E options w) = Inr extraPackages
              \<longrightarrow> fst (getExtraPackagesAsync E options w)
                    = Inr (map PackageDependency.name (getDependencies expoPackage)
                           @ extraPackages))"
  by (simp add: getExtraPackagesAsync_found [OF assms])

lemma sample_expo:
  "getPackageByName sample_env ''expo'' d = Some (hd sample_packages)"
  by (simp add: sample_env_def sample_packages_def)

lemma sample_changed_extra:
  "fst (extraPackagesOf sample_env (sample_options\<lparr>packages := ''changed''\<rparr>) sample_world)
     = Inr [''expo-camera'', ''expo-camera'']"
  by code_simp

theorem default_floor_in_every_mode_witness:
  "fst (getExtraPackagesAsync sample_env (sample_options\<lparr>packages := ''changed''\<rparr>) sample_world)
     = Inr [''expo-asset'', ''expo-file-system'', ''expo-camera'', ''expo-camera'']"
  using default_floor_in_every_mode [OF sample_expo, where w = sample_world
          and options = "sample_options\<lparr>packages := ''changed''\<rparr>"] sample_changed_extra
  by (simp add: sample_packages_def)

text \<open>
  C5, as stated, fails: in mode \<^verbatim>\<open>all\<close> a catalog package that the entry package depends
  on is returned twice.
\<close>

theorem selector_duplicates:
  "fst (getExtraPackagesAsync sample_env (sample_options\<lparr>packages := ''all''\<rparr>) sample_world)
     = Inr [''expo-asset'', ''expo-file-system'', ''expo'', ''expo-asset'', ''expo-camera'']
   \<and> \<not> distinct [''expo-asset'', ''expo-file-system'', ''expo'', ''expo-asset'', ''expo-camera'']"
  by code_simp

text \<open>
  C5, amended. The selector does not deduplicate. Its result is the default names
  followed by the extra names, so as a set it is their union. For the explicit list
  \<^verbatim>\<open>expo-router, expo-camera\<close> the result is the default names followed by
  \<^verbatim>\<open>expo-router\<close> and \<^verbatim>\<open>expo-camera\<close>; it is free of duplicates exactly when the default
  names are and contain neither of the two.
\<close>

theorem selector_union:
  assumes "getPackageByName E ''expo'' (disk w) = Some expoPackage"
      and "defaultPackages = map PackageDependency.name (getDependencies expoPackage)"
      and "explicit = options\<lparr>packages := ''expo-router, expo-camera''\<rparr>"
  shows "(\<forall>result extraPackages.
            fst (getExtraPackagesAsync E options w) = Inr result
            \<and> fst (extraPackagesOf E options w) = Inr extraPackages
            \<longrightarrow> set result = set defaultPackages \<union> set extraPackages)
       \<and> fst (getExtraPackagesAsync E explicit w)
           = Inr (defaultPackages @ [''expo-router'', ''expo-camera''])
       \<and> (distinct (defaultPackages @ [''expo-router'', ''expo-camera''])
            \<longleftrightarrow> distinct defaultPackages \<and> ''expo-router'' \<notin> set defaultPackages
                \<and> ''expo-camera'' \<notin> set defaultPackages)"
proof -
  have "extraPackagesOf E explicit w = (Inr [''expo-router'', ''expo-camera''], w)"
    unfolding assms(3) extraPackagesOf_def
    by (simp add: io_return_def trim_def isWhiteSpace_def)
  then have "fst (getExtraPackagesAsync E explicit w)
           = Inr (defaultPackages @ [''expo-router'', ''expo-camera''])"
    by (simp add: getExtraPackagesAsync_found [OF assms(1)] assms(2))
  moreover have "\<forall>result extraPackages.
            fst (getExtraPackagesAsync E options w) = Inr result
            \<and> fst (extraPackagesOf E options w) = Inr extraPackages
            \<longrightarrow> set result = set defaultPackages \<union> set extraPackages"
    by (auto simp: getExtraPackagesAsync_found [OF assms(1)] assms(2))
  ultimately show ?thesis by auto
qed

theorem selector_union_witness:
  "fst (getExtraPackagesAsync sample_env (sample_options\<lparr>packages := ''expo-router, expo-camera''\<rparr>)
          sample_world)
     = Inr [''expo-asset'', ''expo-file-system'', ''expo-router'', ''expo-camera'']"
  using selector_union [OF sample_expo refl refl, where w = sample_world
          and options = sample_options]
  by (simp add: sample_packages_def)

text \<open>
  C7, as stated, fails: the exclusion set is not consulted in default mode, so an
  excluded package that the entry package declares is returned.
\<close>

theorem default_mode_returns_excluded:
  "fst (getExtraPackagesAsync template_env sample_options sample_world)
     = Inr [''expo-module-template'']
   \<and> ''expo-module-template'' \<in> set EXCLUDED_PACKAGES"
  by code_simp

text \<open>
  C7, amended. When the entry package is found, default mode returns exactly the entry
  package's declared dependency names, in their order, so every returned name is a
  dependency name of the entry package; a name of the exclusion set is returned exactly
  when the entry package declares it.
\<close>

theorem default_mode_result:
  assumes "getPackageByName E ''expo'' (disk w) = Some expoPackage"
      and "packages options = ''default''"
  shows "\<exists>result. fst (getExtraPackagesAsync E options w) = Inr result
           \<and> result = map PackageDependency.name (getDependencies expoPackage)
           \<and> (\<forall>p \<in> set result. p \<in> PackageDependency.name ` set (getDependencies expoPackage))
           \<and> (\<forall>n \<in> set EXCLUDED_PACKAGES. n \<in> set result
                  \<longleftrightarrow> n \<in> PackageDependency.name ` set (getDependencies expoPackage))"
  using assms(2)
  by (simp add: getExtraPackagesAsync_found [OF assms(1)] extraPackagesOf_def io_return_def)

theorem default_mode_result_witness:
  "fst (getExtraPackagesAsync sample_env sample_options sample_world)
     = Inr [''expo-asset'', ''expo-file-system'']"
proof -
  have "packages sample_options = ''default''" by (simp add: sample_options_def)
  from default_mode_result [OF sample_expo this, where w = sample_world]
  show ?thesis by (auto simp: sample_packages_def)
qed

section \<open>Explicit lists\<close>






section \<open>The command\<close>

text \<open>
  C9. With an absent or empty project name the command fails with the missing-name
  error whatever the collaborators are, and leaves the world as it was: the disk is
  untouched and the trace has no new call, so nothing was read, written or run.
\<close>

theorem missing_name_fails_first:
  assumes "ActionOptions.name options = None \<or> ActionOptions.name options = Some []"
  shows "action E options w = (Inl MissingProjectName, w)"
  using assms by (auto simp: action_def io_throw_def)

theorem missing_name_fails_first_witness:
  "action sample_env (sample_options\<lparr>name := Some []\<rparr>) sample_world
     = (Inl MissingProjectName, sample_world)"
proof -
  have "ActionOptions.name (sample_options\<lparr>name := Some []\<rparr>) = None
        \<or> ActionOptions.name (sample_options\<lparr>name := Some []\<rparr>) = Some []"
    by simp
  from missing_name_fails_first [OF this] show ?thesis .
qed

section \<open>Rewriting package.json\<close>

lemma find_snoc:
  "List.find P (xs @ [x]) =
     (case List.find P xs of None \<Rightarrow> (if P x then Some x else None) | Some y \<Rightarrow> Some y)"
  by (induction xs) simp_all

lemma find_name_SomeD:
  assumes "List.find (\<lambda>p. packageName p = n) xs = Some pkg"
  shows "pkg \<in> set xs \<and> packageName pkg = n"
  using assms by (induction xs) (auto split: if_splits)

lemma map_of_fold_packages:
  "map_of (fold (\<lambda>currValue accu.
             if packageName currValue = ''__proto__'' then accu
             else AList.update (packageName currValue) currValue accu) pkgs acc) n =
     (if n \<noteq> ''__proto__'' \<and> n \<in> packageName ` set pkgs
      then List.find (\<lambda>p. packageName p = n) (rev pkgs)
      else map_of acc n)"
proof (induction pkgs arbitrary: acc)
  case Nil
  show ?case by simp
next
  case (Cons p ps)
  show ?case
    by (auto simp: Cons.IH find_snoc AList.update_conv' find_None_iff split: option.splits
             dest!: find_name_SomeD)
qed

lemma map_of_allPackageMapOf:
  "map_of (allPackageMapOf allPackages) n =
     (if n \<noteq> ''__proto__'' \<and> n \<in> packageName ` set allPackages
      then List.find (\<lambda>p. packageName p = n) (rev allPackages)
      else None)"
  by (simp add: allPackageMapOf_def map_of_fold_packages)

lemma allPackageMapOf_SomeD:
  assumes "map_of (allPackageMapOf allPackages) n = Some pkg"
  shows "pkg \<in> set allPackages \<and> packageName pkg = n
         \<and> List.find (\<lambda>p. packageName p = n) (rev allPackages) = Some pkg"
  using assms find_name_SomeD [of n "rev allPackages" pkg]
  by (auto simp: map_of_allPackageMapOf split: if_splits)

lemma allPackageMapOf_defined:
  assumes "n \<in> packageName ` set allPackages" "n \<noteq> ''__proto__''"
  shows "\<exists>pkg. map_of (allPackageMapOf allPackages) n = Some pkg"
proof -
  from assms(1) have "List.find (\<lambda>p. packageName p = n) (rev allPackages) \<noteq> None"
    by (auto simp: find_None_iff)
  with assms show ?thesis by (auto simp: map_of_allPackageMapOf)
qed

lemma set_newSet_aux: "set (fold (\<lambda>x s. if x \<in> set s then s else s @ [x]) xs acc) = set acc \<union> set xs"
  by (induction xs arbitrary: acc) auto

lemma set_newSet: "set (newSet xs) = set xs"
  by (simp add: newSet_def set_newSet_aux)

lemma installLoop_Inr:
  assumes "installLoop E projectDir xs deps res = Inr (deps', res')"
      and "\<And>p q. OwnPackage p \<in> set xs \<Longrightarrow> OwnPackage q \<in> set xs
             \<Longrightarrow> packageName p = packageName q \<Longrightarrow> p = q"
  shows "(\<forall>p. OwnPackage p \<in> set xs \<longrightarrow>
            map_of deps' (packageName p) = Some (path_relative E projectDir (path p))
          \<and> map_of res' (packageName p) = Some (path_relative E projectDir (path p)))
       \<and> (\<forall>n. (\<forall>p. OwnPackage p \<in> set xs \<longrightarrow> packageName p \<noteq> n) \<longrightarrow>
            map_of deps' n = map_of deps n \<and> map_of res' n = map_of res n)"
  using assms
proof (induction E projectDir xs deps res rule: installLoop.induct)
  case (1 E projectDir deps res)
  then show ?case by simp
next
  case (2 E projectDir pkg rest deps res)
  let ?rel = "path_relative E projectDir (path pkg)"
  let ?deps = "AList.update (packageName pkg) ?rel deps"
  let ?res = "AList.update (packageName pkg) ?rel res"
  from "2.prems"(1) have run: "installLoop E projectDir rest ?deps ?res = Inr (deps', res')"
    by (simp add: Let_def)
  have uniq: "\<And>p q. OwnPackage p \<in> set rest \<Longrightarrow> OwnPackage q \<in> set rest
             \<Longrightarrow> packageName p = packageName q \<Longrightarrow> p = q"
    using "2.prems"(2) by simp
  note IH = "2.IH" [OF refl run uniq]
  have later: "map_of deps' (packageName p) = Some (path_relative E projectDir (path p))
          \<and> map_of res' (packageName p) = Some (path_relative E projectDir (path p))"
    if "OwnPackage p \<in> set rest" for p
    using IH that by blast
  have here: "map_of deps' (packageName pkg) = Some ?rel \<and> map_of res' (packageName pkg) = Some ?rel"
  proof (cases "\<exists>q. OwnPackage q \<in> set rest \<and> packageName q = packageName pkg")
    case True
    then obtain q where q: "OwnPackage q \<in> set rest" "packageName q = packageName pkg" by blast
    with "2.prems"(2) [of q pkg] have "q = pkg" by simp
    with later [OF q(1)] show ?thesis by simp
  next
    case False
    with IH have "map_of deps' (packageName pkg) = map_of ?deps (packageName pkg)
                \<and> map_of res' (packageName pkg) = map_of ?res (packageName pkg)"
      by blast
    then show ?thesis by (simp add: AList.update_conv')
  qed
  have other: "map_of deps' n = map_of deps n \<and> map_of res' n = map_of res n"
    if "\<forall>p. OwnPackage p \<in> set (OwnPackage pkg # rest) \<longrightarrow> packageName p \<noteq> n" for n
  proof -
    from that have "packageName pkg \<noteq> n" "\<forall>p. OwnPackage p \<in> set rest \<longrightarrow> packageName p \<noteq> n"
      by auto
    with IH have "map_of deps' n = map_of ?deps n \<and> map_of res' n = map_of ?res n" by blast
    with \<open>packageName pkg \<noteq> n\<close> show ?thesis by (simp add: AList.update_conv')
  qed
  show ?case using later here other by auto
qed simp_all

lemma getProperty_Own_iff:
  "getProperty m n = OwnPackage p \<longleftrightarrow> map_of m n = Some p"
  by (auto simp: getProperty_def split: option.splits)

lemma in_map_filterD:
  "y \<in> set (map f (filter P xs)) \<Longrightarrow> \<exists>x \<in> set xs. P x \<and> f x = y"
  by auto

lemma in_map_filterI:
  "x \<in> set xs \<Longrightarrow> P x \<Longrightarrow> f x = y \<Longrightarrow> y \<in> set (map f (filter P xs))"
  by force

lemma rewritePackageJson_InrD:
  assumes "rewritePackageJson E projectDir allPackages extraInstallPackages projectPackageJson
             = Inr rewritten"
  shows "\<exists>deps deps' res'.
           dependencies projectPackageJson = Some deps
         \<and> installLoop E projectDir
              (newSet (map (getProperty (allPackageMapOf allPackages))
                 (filter (\<lambda>name. getProperty (allPackageMapOf allPackages) name \<noteq> Undefined)
                    (map fst deps @ extraInstallPackages))))
              deps (case resolutions projectPackageJson of None \<Rightarrow> [] | Some r \<Rightarrow> r)
             = Inr (deps', res')
         \<and> rewritten = projectPackageJson\<lparr>dependencies := Some deps', resolutions := Some res'\<rparr>"
  using assms
  by (auto simp: rewritePackageJson_def Let_def split: option.splits sum.splits)

text \<open>
  The entries of a document that the rewrite returns, for a catalog without a package
  called \<^verbatim>\<open>__proto__\<close>.
\<close>

lemma rewritePackageJson_entries:
  assumes "rewritePackageJson E projectDir allPackages extraInstallPackages projectPackageJson
             = Inr rewritten"
      and "''__proto__'' \<notin> packageName ` set allPackages"
  shows "\<exists>deps deps' res'.
           dependencies projectPackageJson = Some deps
         \<and> rewritten = projectPackageJson\<lparr>dependencies := Some deps', resolutions := Some res'\<rparr>
         \<and> (\<forall>n \<in> (fst ` set deps \<union> set extraInstallPackages) \<inter> packageName ` set allPackages.
               \<exists>pkg \<in> set allPackages.
                 List.find (\<lambda>p. packageName p = n) (rev allPackages) = Some pkg
               \<and> map_of deps' n = Some (path_relative E projectDir (path pkg))
               \<and> map_of res' n = map_of deps' n)
         \<and> (\<forall>n. n \<notin> (fst ` set deps \<union> set extraInstallPackages) \<inter> packageName ` set allPackages
               \<longrightarrow> map_of deps' n = map_of deps n
                 \<and> map_of res' n
                     = map_of (case resolutions projectPackageJson of None \<Rightarrow> [] | Some r \<Rightarrow> r) n)
         \<and> (\<forall>n. n \<notin> fst ` set deps \<union> set extraInstallPackages
               \<longrightarrow> map_of deps' n = None
                 \<and> map_of res' n
                     = map_of (case resolutions projectPackageJson of None \<Rightarrow> [] | Some r \<Rightarrow> r) n)"
proof -
  let ?m = "allPackageMapOf allPackages"
  let ?res = "case resolutions projectPackageJson of None \<Rightarrow> [] | Some r \<Rightarrow> r"
  from rewritePackageJson_InrD [OF assms(1)] obtain deps deps' res' where
    deps: "dependencies projectPackageJson = Some deps"
    and run: "installLoop E projectDir
              (newSet (map (getProperty ?m)
                 (filter (\<lambda>name. getProperty ?m name \<noteq> Undefined)
                    (map fst deps @ extraInstallPackages))))
              deps ?res = Inr (deps', res')"
    and rw: "rewritten = projectPackageJson\<lparr>dependencies := Some deps', resolutions := Some res'\<rparr>"
    by blast
  let ?install = "newSet (map (getProperty ?m)
                 (filter (\<lambda>name. getProperty ?m name \<noteq> Undefined)
                    (map fst deps @ extraInstallPackages)))"
  let ?named = "fst ` set deps \<union> set extraInstallPackages"
  have member: "OwnPackage p \<in> set ?install \<longleftrightarrow> (\<exists>n \<in> ?named. map_of ?m n = Some p)" for p
  proof
    assume "OwnPackage p \<in> set ?install"
    then have "OwnPackage p \<in> set (map (getProperty ?m)
                 (filter (\<lambda>name. getProperty ?m name \<noteq> Undefined)
                    (map fst deps @ extraInstallPackages)))"
      by (simp only: set_newSet)
    from in_map_filterD [OF this]
    obtain n where "n \<in> set (map fst deps @ extraInstallPackages)"
      "getProperty ?m n = OwnPackage p"
      by blast
    then show "\<exists>n \<in> ?named. map_of ?m n = Some p"
      by (auto simp: getProperty_Own_iff)
  next
    assume "\<exists>n \<in> ?named. map_of ?m n = Some p"
    then obtain n where n: "n \<in> set (map fst deps @ extraInstallPackages)"
      "getProperty ?m n = OwnPackage p"
      by (auto simp: getProperty_Own_iff)
    from n(2) have "getProperty ?m n \<noteq> Undefined" by simp
    from in_map_filterI [where f = "getProperty ?m"
           and P = "\<lambda>name. getProperty ?m name \<noteq> Undefined", OF n(1) this n(2)]
    show "OwnPackage p \<in> set ?install"
      by (simp only: set_newSet)
  qed
  have uniq: "p = q"
    if "OwnPackage p \<in> set ?install" "OwnPackage q \<in> set ?install"
       "packageName p = packageName q" for p q
  proof -
    from that(1) member obtain n where n: "map_of ?m n = Some p" by blast
    from that(2) member obtain k where k: "map_of ?m k = Some q" by blast
    from allPackageMapOf_SomeD [OF n] allPackageMapOf_SomeD [OF k] that(3)
    have "n = k" by simp
    with n k show ?thesis by simp
  qed
  note loop = installLoop_Inr [OF run uniq]
  let ?eligible = "?named \<inter> packageName ` set allPackages"
  have eligible: "\<exists>pkg \<in> set allPackages.
                 List.find (\<lambda>p. packageName p = n) (rev allPackages) = Some pkg
               \<and> map_of deps' n = Some (path_relative E projectDir (path pkg))
               \<and> map_of res' n = map_of deps' n"
    if "n \<in> ?eligible" for n
  proof -
    from that have inCatalog: "n \<in> packageName ` set allPackages" by blast
    with assms(2) have "n \<noteq> ''__proto__''" by metis
    from allPackageMapOf_defined [OF inCatalog this] obtain pkg where pkg: "map_of ?m n = Some pkg" by blast
    from allPackageMapOf_SomeD [OF pkg]
    have facts: "pkg \<in> set allPackages" "packageName pkg = n"
      "List.find (\<lambda>p. packageName p = n) (rev allPackages) = Some pkg" by simp_all
    from that pkg member have "OwnPackage pkg \<in> set ?install" by blast
    with loop facts(2)
    have "map_of deps' n = Some (path_relative E projectDir (path pkg))"
         "map_of res' n = Some (path_relative E projectDir (path pkg))" by blast+
    with facts show ?thesis by auto
  qed
  have other: "map_of deps' n = map_of deps n \<and> map_of res' n = map_of ?res n"
    if "n \<notin> ?eligible" for n
  proof -
    have "packageName p \<noteq> n" if p: "OwnPackage p \<in> set ?install" for p
    proof
      assume eq: "packageName p = n"
      from p member obtain k where k: "k \<in> ?named" "map_of ?m k = Some p" by blast
      from allPackageMapOf_SomeD [OF k(2)] eq have "k = n" "p \<in> set allPackages" by simp_all
      with k(1) eq have "n \<in> ?eligible" by auto
      with \<open>n \<notin> ?eligible\<close> show False by simp
    qed
    with loop show ?thesis by blast
  qed
  have absent: "map_of deps' n = None \<and> map_of res' n = map_of ?res n"
    if "n \<notin> ?named" for n
  proof -
    from that have "n \<notin> ?eligible" by simp
    from other [OF this] have "map_of deps' n = map_of deps n" "map_of res' n = map_of ?res n"
      by simp_all
    moreover from that have "map_of deps n = None"
      by (simp add: map_of_eq_None_iff)
    ultimately show ?thesis by simp
  qed
  from deps rw eligible other absent show ?thesis by blast
qed

lemma installLoop_all_own:
  assumes "\<forall>x \<in> set xs. \<exists>p. x = OwnPackage p"
  shows "\<exists>r. installLoop E projectDir xs deps res = Inr r"
  using assms
  by (induction E projectDir xs deps res rule: installLoop.induct) (auto simp: Let_def)

lemma rewritePackageJson_completes:
  assumes "dependencies projectPackageJson = Some deps"
      and "\<forall>n \<in> fst ` set deps \<union> set extraInstallPackages.
             n \<in> set objectPrototypeKeys \<longrightarrow> n \<in> packageName ` set allPackages"
      and "''__proto__'' \<notin> packageName ` set allPackages"
  shows "\<exists>rewritten. rewritePackageJson E projectDir allPackages extraInstallPackages
                        projectPackageJson = Inr rewritten"
proof -
  let ?m = "allPackageMapOf allPackages"
  let ?install = "newSet (map (getProperty ?m)
                 (filter (\<lambda>name. getProperty ?m name \<noteq> Undefined)
                    (map fst deps @ extraInstallPackages)))"
  have "\<exists>p. x = OwnPackage p" if "x \<in> set ?install" for x
  proof -
    from that have "x \<in> set (map (getProperty ?m)
                 (filter (\<lambda>name. getProperty ?m name \<noteq> Undefined)
                    (map fst deps @ extraInstallPackages)))"
      by (simp only: set_newSet)
    from in_map_filterD [OF this]
    obtain n where n: "n \<in> set (map fst deps @ extraInstallPackages)"
      "getProperty ?m n \<noteq> Undefined" "getProperty ?m n = x" by blast
    show ?thesis
    proof (cases "map_of ?m n")
      case (Some p)
      with n(3) show ?thesis by (auto simp: getProperty_def)
    next
      case None
      with n(2) have key: "n \<in> set objectPrototypeKeys"
        by (auto simp: getProperty_def split: if_splits)
      with n(1) assms(2) have inCatalog: "n \<in> packageName ` set allPackages" by auto
      with assms(3) have "n \<noteq> ''__proto__''" by metis
      from allPackageMapOf_defined [OF inCatalog this] None show ?thesis by simp
    qed
  qed
  then have "\<forall>x \<in> set ?install. \<exists>p. x = OwnPackage p" by blast
  from installLoop_all_own [OF this]
  obtain r where "installLoop E projectDir ?install deps
        (case resolutions projectPackageJson of None \<Rightarrow> [] | Some r \<Rightarrow> r) = Inr r"
    by blast
  with assms(1) show ?thesis
    by (cases r) (simp add: rewritePackageJson_def Let_def)
qed

section \<open>The template tarball\<close>

lemma prebuildWithTarball_eq:
  assumes "runExpoCliAsync E ''prebuild'' [''--template'', t, ''--no-install''] projectDir (disk w)
             = (outcome, d)"
  shows "prebuildWithTarball E projectDir t w =
           (if t \<in> set (files d)
            then (case outcome of Some e \<Rightarrow> Inl e | None \<Rightarrow> Inr ())
            else Inl (ENOENT t),
            \<lparr>disk = d\<lparr>files := removeAll t (files d)\<rparr>,
             trace = trace w @ [CallRunExpoCli ''prebuild'' [''--template'', t, ''--no-install'']
                                  projectDir, CallUnlink t]\<rparr>)"
  using assms
  by (simp add: prebuildWithTarball_def try_finally_def external_def unlink_def Let_def
           split: option.splits)

lemma updatePackageJson_files:
  "files (disk (snd (updatePackageJson E projectName projectDir workDir extra w)))
     = files (disk w)"
  by (simp add: updatePackageJson_def io_bind_def query_def require_def writeAsync_def
        io_throw_def Let_def split: sum.splits option.splits)

lemma updatePackageJson_trace:
  "\<exists>later. trace (snd (updatePackageJson E projectName projectDir workDir extra w))
             = trace w @ later"
  by (simp add: updatePackageJson_def io_bind_def query_def require_def writeAsync_def
        io_throw_def Let_def split: sum.splits option.splits)

lemma prebuildProjectAsync_located:
  assumes "packBareTemplate E projectName projectDir workDir w = (Inr t, w1)"
      and "runExpoCliAsync E ''prebuild'' [''--template'', t, ''--no-install''] projectDir (disk w1)
             = (outcome, d)"
  shows "prebuildProjectAsync E projectName projectDir workDir extra w =
           (let w2 = \<lparr>disk = d\<lparr>files := removeAll t (files d)\<rparr>,
                      trace = trace w1 @ [CallRunExpoCli ''prebuild''
                                [''--template'', t, ''--no-install''] projectDir, CallUnlink t]\<rparr>
            in if t \<in> set (files d)
               then (case outcome of
                       Some e \<Rightarrow> (Inl e, w2)
                     | None \<Rightarrow> updatePackageJson E projectName projectDir workDir extra w2)
               else (Inl (ENOENT t), w2))"
  by (simp add: prebuildProjectAsync_def io_bind_def assms(1) prebuildWithTarball_eq [OF assms(2)]
           Let_def split: option.splits)

text \<open>
  C3. In every run of prebuild that located the tarball, the tarball is unlinked after
  the prebuild step, whether the step succeeded or threw, and is gone when prebuild
  returns. When the step threw, prebuild fails, and it returns in the state the unlink
  left: the unlink is the last call on the trace. The error is the step's own if the
  step left the tarball in place.
\<close>

theorem tarball_removed_on_both_paths:
  assumes "packBareTemplate E projectName projectDir workDir w = (Inr t, w1)"
      and "runExpoCliAsync E ''prebuild'' [''--template'', t, ''--no-install''] projectDir (disk w1)
             = (outcome, d)"
  shows "t \<notin> set (files (disk (snd (prebuildProjectAsync E projectName projectDir workDir extra w))))
       \<and> (\<exists>later. trace (snd (prebuildProjectAsync E projectName projectDir workDir extra w))
             = trace w1 @ [CallRunExpoCli ''prebuild'' [''--template'', t, ''--no-install'']
                             projectDir, CallUnlink t] @ later)
       \<and> (\<forall>e. outcome = Some e \<longrightarrow>
            (\<exists>e'. prebuildProjectAsync E projectName projectDir workDir extra w
                    = (Inl e', \<lparr>disk = d\<lparr>files := removeAll t (files d)\<rparr>,
                                trace = trace w1 @ [CallRunExpoCli ''prebuild''
                                  [''--template'', t, ''--no-install''] projectDir, CallUnlink t]\<rparr>)
                 \<and> (t \<in> set (files d) \<longrightarrow> e' = e)))"
proof -
  let ?w2 = "\<lparr>disk = d\<lparr>files := removeAll t (files d)\<rparr>,
              trace = trace w1 @ [CallRunExpoCli ''prebuild''
                        [''--template'', t, ''--no-install''] projectDir, CallUnlink t]\<rparr>"
  note run = prebuildProjectAsync_located [OF assms, of extra]
  obtain later where later:
    "trace (snd (updatePackageJson E projectName projectDir workDir extra ?w2)) = trace ?w2 @ later"
    using updatePackageJson_trace by blast
  have gone: "t \<notin> set (files (disk (snd (prebuildProjectAsync E projectName projectDir workDir
                                            extra w))))"
    by (simp add: run Let_def updatePackageJson_files split: option.splits)
  have order: "\<exists>later. trace (snd (prebuildProjectAsync E projectName projectDir workDir extra w))
             = trace w1 @ [CallRunExpoCli ''prebuild'' [''--template'', t, ''--no-install'']
                             projectDir, CallUnlink t] @ later"
    using later by (simp add: run Let_def split: option.splits)
  have fails: "\<exists>e'. prebuildProjectAsync E projectName projectDir workDir extra w = (Inl e', ?w2)
                 \<and> (t \<in> set (files d) \<longrightarrow> e' = e)"
    if "outcome = Some e" for e
    using that by (simp add: run Let_def)
  from gone order fails show ?thesis by blast
qed

lemma failing_located:
  "packBareTemplate failing_env ''demo'' ''/work/demo'' ''/work'' sample_world
     = (Inr ''/work/expo-template-bare-minimum-45.0.0.tgz'',
        \<lparr>disk = \<lparr>files = [''/work/expo-template-bare-minimum-45.0.0.tgz'',
                          ''/work/expo-template-bare-minimum-46.0.0.tgz''],
                 documents = [(''/work/demo/package.json'', sample_manifest)],
                 cwd = ''/repo''\<rparr>,
          trace = [CallMerge ''/work/demo/app.json'' ''dev.expo.demo'',
                   CallSpawn ''npm'' [''pack'', ''--pack-destination'', ''/work''],
                   CallGlob ''expo-template-bare-minimum-*.tgz'' ''/work'']\<rparr>)"
  by code_simp

lemma failing_step:
  "runExpoCliAsync failing_env ''prebuild''
     [''--template'', ''/work/expo-template-bare-minimum-45.0.0.tgz'', ''--no-install'']
     ''/work/demo'' d = (Some (External ''prebuild failed''), d)"
  by (simp add: failing_env_def)

theorem tarball_removed_on_both_paths_witness:
  "fst (prebuildProjectAsync failing_env ''demo'' ''/work/demo'' ''/work'' [] sample_world)
     = Inl (External ''prebuild failed'')
   \<and> ''/work/expo-template-bare-minimum-45.0.0.tgz''
       \<notin> set (files (disk (snd (prebuildProjectAsync failing_env ''demo'' ''/work/demo'' ''/work'' []
                                  sample_world))))"
proof -
  from tarball_removed_on_both_paths [OF failing_located failing_step, of "[]"]
  have gone: "''/work/expo-template-bare-minimum-45.0.0.tgz''
       \<notin> set (files (disk (snd (prebuildProjectAsync failing_env ''demo'' ''/work/demo'' ''/work'' []
                                  sample_world))))"
    and fails: "\<exists>e'. fst (prebuildProjectAsync failing_env ''demo'' ''/work/demo'' ''/work'' []
                             sample_world) = Inl e'
                 \<and> e' = External ''prebuild failed''"
    by auto
  then show ?thesis by simp
qed

text \<open>
  What a run that located a tarball leaves on disk, whether it succeeded or failed: the
  files the prebuild step left, without the located tarball.
\<close>

lemma only_located_tarball_removed:
  assumes "packBareTemplate E projectName projectDir workDir w = (Inr t, w1)"
      and "runExpoCliAsync E ''prebuild'' [''--template'', t, ''--no-install''] projectDir (disk w1)
             = (outcome, d)"
  shows "files (disk (snd (prebuildProjectAsync E projectName projectDir workDir extra w)))
           = removeAll t (files d)
       \<and> filter (isTarballIn workDir)
           (files (disk (snd (prebuildProjectAsync E projectName projectDir workDir extra w))))
           = removeAll t (filter (isTarballIn workDir) (files d))"
proof -
  have "files (disk (snd (prebuildProjectAsync E projectName projectDir workDir extra w)))
           = removeAll t (files d)"
    by (simp add: prebuildProjectAsync_located [OF assms] Let_def updatePackageJson_files
             split: option.splits)
  then show ?thesis by (simp add: removeAll_filter_not_eq filter_filter conj_commute)
qed

lemma sample_located:
  "packBareTemplate sample_env ''demo'' ''/work/demo'' ''/work'' sample_world
     = (Inr ''/work/expo-template-bare-minimum-45.0.0.tgz'',
        \<lparr>disk = \<lparr>files = [''/work/expo-template-bare-minimum-45.0.0.tgz'',
                          ''/work/expo-template-bare-minimum-46.0.0.tgz''],
                 documents = [(''/work/demo/package.json'', sample_manifest)],
                 cwd = ''/repo''\<rparr>,
          trace = [CallMerge ''/work/demo/app.json'' ''dev.expo.demo'',
                   CallSpawn ''npm'' [''pack'', ''--pack-destination'', ''/work''],
                   CallGlob ''expo-template-bare-minimum-*.tgz'' ''/work'']\<rparr>)"
  by code_simp

lemma sample_step:
  "runExpoCliAsync sample_env ''prebuild''
     [''--template'', ''/work/expo-template-bare-minimum-45.0.0.tgz'', ''--no-install'']
     ''/work/demo'' d = (None, d)"
  by (simp add: sample_env_def)

lemma only_located_tarball_removed_sample:
  "files (disk (snd (prebuildProjectAsync sample_env ''demo'' ''/work/demo'' ''/work'' []
                       sample_world)))
     = [''/work/expo-template-bare-minimum-46.0.0.tgz'']"
  using only_located_tarball_removed [OF sample_located sample_step, of "[]"]
  by simp

text \<open>
  C8. After prebuild returns, no file that matches the pattern of the tarball should
  remain in the working directory. The code breaks this when the working directory
  already holds the tarball of an earlier template version: element 0 of the sorted
  matches is the earlier tarball, so prebuild is run with it and it is the one unlinked,
  and the tarball that was just packed remains after a successful run.
\<close>

theorem second_tarball_remains:
  "fst (prebuildProjectAsync sample_env ''demo'' ''/work/demo'' ''/work'' [] sample_world) = Inr ()
   \<and> filter (isTarballIn ''/work'') (files (disk sample_world))
       = [''/work/expo-template-bare-minimum-45.0.0.tgz'']
   \<and> trace (snd (prebuildProjectAsync sample_env ''demo'' ''/work/demo'' ''/work'' [] sample_world))
       = [CallMerge ''/work/demo/app.json'' ''dev.expo.demo'',
          CallSpawn ''npm'' [''pack'', ''--pack-destination'', ''/work''],
          CallGlob ''expo-template-bare-minimum-*.tgz'' ''/work'',
          CallRunExpoCli ''prebuild''
            [''--template'', ''/work/expo-template-bare-minimum-45.0.0.tgz'', ''--no-install'']
            ''/work/demo'',
          CallUnlink ''/work/expo-template-bare-minimum-45.0.0.tgz'',
          CallGetListOfPackages, CallRequire ''/work/demo/package.json'',
          CallWrite ''/work/demo/package.json'']
   \<and> filter (isTarballIn ''/work'')
       (files (disk (snd (prebuildProjectAsync sample_env ''demo'' ''/work/demo'' ''/work'' []
                           sample_world))))
     = [''/work/expo-template-bare-minimum-46.0.0.tgz'']"
  by code_simp

section \<open>The rewritten document\<close>

lemma updatePackageJson_result:
  assumes "getListOfPackagesAsync E (disk w) = Inr allPackages"
      and "map_of (documents (disk w)) (path_join E [workDir, projectName, ''package.json''])
             = Some projectPackageJson"
  shows "updatePackageJson E projectName projectDir workDir extra w =
           (case rewritePackageJson E projectDir allPackages extra projectPackageJson of
              Inl e \<Rightarrow>
                (Inl e, w\<lparr>trace := trace w @ [CallGetListOfPackages,
                   CallRequire (path_join E [workDir, projectName, ''package.json''])]\<rparr>)
            | Inr rewritten \<Rightarrow>
                (Inr (),
                 \<lparr>disk = (disk w)\<lparr>documents :=
                     AList.update (path_join E [workDir, projectName, ''package.json''])
                       rewritten (documents (disk w))\<rparr>,
                  trace = trace w @ [CallGetListOfPackages,
                     CallRequire (path_join E [workDir, projectName, ''package.json'']),
                     CallWrite (path_join E [workDir, projectName, ''package.json''])]\<rparr>))"
  using assms
  by (simp add: updatePackageJson_def io_bind_def query_def require_def writeAsync_def
        io_throw_def Let_def split: sum.splits)

text \<open>
  C2. Take a run of prebuild that completes, in which the catalog holds no package called
  \<^verbatim>\<open>__proto__\<close>. The document it leaves at \<^verbatim>\<open>workDir/name/package.json\<close> is the document
  the prebuild step left there with \<^verbatim>\<open>dependencies\<close> and \<^verbatim>\<open>resolutions\<close> replaced, and every
  other document is as the prebuild step left it. For every name that is declared in
  the manifest or selected, and is the name of a catalog package, \<^verbatim>\<open>dependencies[name]\<close>
  is the path of that package (the last of that name in the catalog) relative to the
  project directory and \<^verbatim>\<open>resolutions[name]\<close> is the same value, \<^verbatim>\<open>resolutions\<close> being
  created when absent. For every other name both entries are what they were, so a name
  that is neither declared nor selected is not added.
\<close>

theorem manifest_rewrite:
  assumes "packBareTemplate E projectName projectDir workDir w = (Inr t, w1)"
      and "runExpoCliAsync E ''prebuild'' [''--template'', t, ''--no-install''] projectDir (disk w1)
             = (outcome, d)"
      and "getListOfPackagesAsync E (d\<lparr>files := removeAll t (files d)\<rparr>) = Inr allPackages"
      and "map_of (documents d) (path_join E [workDir, projectName, ''package.json''])
             = Some projectPackageJson"
      and "prebuildProjectAsync E projectName projectDir workDir extraInstallPackages w
             = (Inr (), w')"
      and "''__proto__'' \<notin> packageName ` set allPackages"
  shows "\<exists>deps deps' res'.
           dependencies projectPackageJson = Some deps
         \<and> map_of (documents (disk w')) (path_join E [workDir, projectName, ''package.json''])
             = Some (projectPackageJson\<lparr>dependencies := Some deps', resolutions := Some res'\<rparr>)
         \<and> (\<forall>other. other \<noteq> path_join E [workDir, projectName, ''package.json'']
               \<longrightarrow> map_of (documents (disk w')) other = map_of (documents d) other)
         \<and> (\<forall>n \<in> (fst ` set deps \<union> set extraInstallPackages) \<inter> packageName ` set allPackages.
               \<exists>pkg \<in> set allPackages.
                 List.find (\<lambda>p. packageName p = n) (rev allPackages) = Some pkg
               \<and> map_of deps' n = Some (path_relative E projectDir (path pkg))
               \<and> map_of res' n = map_of deps' n)
         \<and> (\<forall>n. n \<notin> (fst ` set deps \<union> set extraInstallPackages) \<inter> packageName ` set allPackages
               \<longrightarrow> map_of deps' n = map_of deps n
                 \<and> map_of res' n
                     = map_of (case resolutions projectPackageJson of None \<Rightarrow> [] | Some r \<Rightarrow> r) n)
         \<and> (\<forall>n. n \<notin> fst ` set deps \<union> set extraInstallPackages
               \<longrightarrow> map_of deps' n = None
                 \<and> map_of res' n
                     = map_of (case resolutions projectPackageJson of None \<Rightarrow> [] | Some r \<Rightarrow> r) n)"
proof -
  let ?file = "path_join E [workDir, projectName, ''package.json'']"
  let ?w2 = "\<lparr>disk = d\<lparr>files := removeAll t (files d)\<rparr>,
              trace = trace w1 @ [CallRunExpoCli ''prebuild''
                        [''--template'', t, ''--no-install''] projectDir, CallUnlink t]\<rparr>"
  have catalog: "getListOfPackagesAsync E (disk ?w2) = Inr allPackages"
    using assms(3) by simp
  have document: "map_of (documents (disk ?w2)) ?file = Some projectPackageJson"
    using assms(4) by simp
  note update = updatePackageJson_result [OF catalog document, of projectDir extraInstallPackages]
  from assms(5) have step: "updatePackageJson E projectName projectDir workDir
                              extraInstallPackages ?w2 = (Inr (), w')"
    unfolding prebuildProjectAsync_located [OF assms(1,2)]
    by (simp add: Let_def split: if_splits option.splits)
  from step update obtain rewritten where
    rewritten: "rewritePackageJson E projectDir allPackages extraInstallPackages
                  projectPackageJson = Inr rewritten"
    and w': "w' = \<lparr>disk = (disk ?w2)\<lparr>documents :=
                     AList.update ?file rewritten (documents (disk ?w2))\<rparr>,
                  trace = trace ?w2 @ [CallGetListOfPackages, CallRequire ?file,
                     CallWrite ?file]\<rparr>"
    by (cases "rewritePackageJson E projectDir allPackages extraInstallPackages
                 projectPackageJson") auto
  from w' have written: "map_of (documents (disk w')) ?file = Some rewritten"
    by (simp add: AList.update_conv')
  from w' have others: "map_of (documents (disk w')) other = map_of (documents d) other"
    if "other \<noteq> ?file" for other
    using that by (simp add: AList.update_conv')
  from rewritePackageJson_entries [OF rewritten assms(6)] written others
  show ?thesis by blast
qed

lemma sample_prebuild_completes:
  "fst (prebuildProjectAsync sample_env ''demo'' ''/work/demo'' ''/work''
          [''expo-asset'', ''left-pad''] sample_world) = Inr ()"
  by code_simp

lemma sample_no_proto: "''__proto__'' \<notin> packageName ` set sample_packages"
  by (simp add: sample_packages_def)

lemma sample_expo_asset_path:
  "path_relative sample_env ''/work/demo'' ''/repo/packages/expo-asset''
     = ''../../repo/packages/expo-asset''"
  by code_simp

theorem manifest_rewrite_witness:
  "map_of (the (dependencies (the (map_of (documents (disk (snd (prebuildProjectAsync sample_env
       ''demo'' ''/work/demo'' ''/work'' [''expo-asset'', ''left-pad''] sample_world))))
       ''/work/demo/package.json'')))) ''expo-asset'' = Some ''../../repo/packages/expo-asset''
   \<and> map_of (the (resolutions (the (map_of (documents (disk (snd (prebuildProjectAsync sample_env
       ''demo'' ''/work/demo'' ''/work'' [''expo-asset'', ''left-pad''] sample_world))))
       ''/work/demo/package.json'')))) ''expo-asset'' = Some ''../../repo/packages/expo-asset''
   \<and> map_of (the (dependencies (the (map_of (documents (disk (snd (prebuildProjectAsync sample_env
       ''demo'' ''/work/demo'' ''/work'' [''expo-asset'', ''left-pad''] sample_world))))
       ''/work/demo/package.json'')))) ''react'' = Some ''18.0.0''
   \<and> map_of (the (dependencies (the (map_of (documents (disk (snd (prebuildProjectAsync sample_env
       ''demo'' ''/work/demo'' ''/work'' [''expo-asset'', ''left-pad''] sample_world))))
       ''/work/demo/package.json'')))) ''left-pad'' = None"
proof -
  let ?run = "prebuildProjectAsync sample_env ''demo'' ''/work/demo'' ''/work''
                [''expo-asset'', ''left-pad''] sample_world"
  let ?deps = "[(''expo'', ''~46.0.0''), (''react'', ''18.0.0'')]"
  let ?extra = "[''expo-asset'', ''left-pad'']"
  let ?eligible = "(fst ` set ?deps \<union> set ?extra) \<inter> packageName ` set sample_packages"
  have location: "path_join sample_env [''/work'', ''demo'', ''package.json'']
                = ''/work/demo/package.json''"
    by (simp add: sample_env_def posix_join_def)
  let ?t = "''/work/expo-template-bare-minimum-45.0.0.tgz''"
  let ?w1 = "\<lparr>disk = \<lparr>files = [''/work/expo-template-bare-minimum-45.0.0.tgz'',
                          ''/work/expo-template-bare-minimum-46.0.0.tgz''],
                 documents = [(''/work/demo/package.json'', sample_manifest)],
                 cwd = ''/repo''\<rparr>,
          trace = [CallMerge ''/work/demo/app.json'' ''dev.expo.demo'',
                   CallSpawn ''npm'' [''pack'', ''--pack-destination'', ''/work''],
                   CallGlob ''expo-template-bare-minimum-*.tgz'' ''/work'']\<rparr>"
  have located: "packBareTemplate sample_env ''demo'' ''/work/demo'' ''/work'' sample_world
                   = (Inr ?t, ?w1)"
    by (rule sample_located)
  have step: "runExpoCliAsync sample_env ''prebuild'' [''--template'', ?t, ''--no-install'']
                ''/work/demo'' (disk ?w1) = (None, disk ?w1)"
    by (rule sample_step)
  have catalog: "getListOfPackagesAsync sample_env
                   ((disk ?w1)\<lparr>files := removeAll ?t (files (disk ?w1))\<rparr>) = Inr sample_packages"
    by (rule sample_list)
  have document: "map_of (documents (disk ?w1))
                    (path_join sample_env [''/work'', ''demo'', ''package.json''])
                  = Some sample_manifest"
    by (simp add: location)
  have completes: "?run = (Inr (), snd ?run)"
    using sample_prebuild_completes by (simp add: prod_eq_iff)
  from manifest_rewrite [OF located step catalog document completes sample_no_proto]
  obtain deps deps' res' where
    d: "dependencies sample_manifest = Some deps"
    and doc: "map_of (documents (disk (snd ?run)))
                (path_join sample_env [''/work'', ''demo'', ''package.json''])
              = Some (sample_manifest\<lparr>dependencies := Some deps', resolutions := Some res'\<rparr>)"
    and el: "\<forall>n \<in> (fst ` set deps \<union> set ?extra) \<inter> packageName ` set sample_packages.
               \<exists>pkg \<in> set sample_packages.
                 List.find (\<lambda>p. packageName p = n) (rev sample_packages) = Some pkg
               \<and> map_of deps' n = Some (path_relative sample_env ''/work/demo'' (path pkg))
               \<and> map_of res' n = map_of deps' n"
    and ot: "\<forall>n. n \<notin> (fst ` set deps \<union> set ?extra) \<inter> packageName ` set sample_packages
               \<longrightarrow> map_of deps' n = map_of deps n
                 \<and> map_of res' n
                     = map_of (case resolutions sample_manifest of None \<Rightarrow> [] | Some r \<Rightarrow> r) n"
    by blast
  from d have deps: "deps = ?deps" by (simp add: sample_manifest_def)
  have "''expo-asset'' \<in> ?eligible" by (simp add: sample_packages_def)
  with el deps obtain pkg where
    pkg: "List.find (\<lambda>p. packageName p = ''expo-asset'') (rev sample_packages) = Some pkg"
    and v: "map_of deps' ''expo-asset'' = Some (path_relative sample_env ''/work/demo'' (path pkg))"
           "map_of res' ''expo-asset'' = map_of deps' ''expo-asset''"
    by blast
  from pkg have "path pkg = ''/repo/packages/expo-asset''"
    by (auto simp: sample_packages_def)
  with v have asset: "map_of deps' ''expo-asset'' = Some ''../../repo/packages/expo-asset''"
    "map_of res' ''expo-asset'' = Some ''../../repo/packages/expo-asset''"
    by (simp_all add: sample_expo_asset_path)
  have "''react'' \<notin> ?eligible" "''left-pad'' \<notin> ?eligible" by (simp_all add: sample_packages_def)
  with ot deps have rest: "map_of deps' ''react'' = Some ''18.0.0''" "map_of deps' ''left-pad'' = None"
    by simp_all
  from doc have "map_of (documents (disk (snd ?run))) ''/work/demo/package.json''
              = Some (sample_manifest\<lparr>dependencies := Some deps', resolutions := Some res'\<rparr>)"
    unfolding location .
  with asset rest show ?thesis by simp
qed

end
